theory Spec2Isabelle
  imports Main "HOL-Library.AList"
begin

section \<open>Values, errors and text\<close>

text \<open>
  The attribute values of a field are Python objects: \<open>None\<close>, booleans, integers,
  strings, and for \<open>EnumField.values\<close> a list of dictionaries. A dictionary is an
  association list in insertion order. A raised exception is the left summand of the result.
\<close>

datatype pyval =
    PyNone
  | PyBool bool
  | PyInt int
  | PyStr string
  | PyList "pyval list"
  | PyDict "(string \<times> pyval) list"

datatype error = TypeError | AttributeError

text \<open>
  Text is modelled as \<open>string\<close>. A Python string of ASCII characters is the list of its
  characters; \<open>isascii\<close> is \<open>str.isascii()\<close>. The case mapping below is Python's on
  ASCII text only: \<open>upper\<close> and \<open>lower\<close> leave every character outside a-z and A-Z
  as it is, where Python changes cased characters beyond ASCII (and may change the length of
  the text). What is proved of \<open>capitalize\<close> is therefore stated of ASCII text.
  \<open>str.replace(old, new)\<close> is used by the source with one-character arguments only,
  where it maps over the characters.
\<close>

definition isascii :: "string \<Rightarrow> bool" where
  "isascii s = list_all (\<lambda>c. (of_char c :: nat) < 128) s"

definition upper :: "char \<Rightarrow> char" where
  "upper c = (let n = (of_char c :: nat) in if 97 \<le> n \<and> n \<le> 122 then char_of (n - 32) else c)"

definition lower :: "char \<Rightarrow> char" where
  "lower c = (let n = (of_char c :: nat) in if 65 \<le> n \<and> n \<le> 90 then char_of (n + 32) else c)"

definition str_replace :: "char \<Rightarrow> char \<Rightarrow> string \<Rightarrow> string" where
  "str_replace old new s = map (\<lambda>c. if c = old then new else c) s"

text \<open>
  \<open>str.capitalize()\<close> on ASCII text: the first character upper-cased, every other one
  lower-cased.
\<close>

fun capitalize :: "string \<Rightarrow> string" where
  "capitalize [] = []"
| "capitalize (c # cs) = upper c # map lower cs"

text \<open>
  The derivation of the label in the words of the spec, \<open>capitalize_first_letter\<close>:
  the first letter is capitalized, and nothing is said of the other characters.
\<close>

fun capitalize_first_letter :: "string \<Rightarrow> string" where
  "capitalize_first_letter [] = []"
| "capitalize_first_letter (c # cs) = upper c # cs"

section \<open>The class table\<close>

datatype cls =
    BaseField | BooleanField | StringField | NumberField | IntegerField | DecimalField
  | TextAreaField | TagsField | EmailField | PhoneField | EnumField
  | DateTimeField | DateField | TimeField | JSONField | FileField | ImageField
  | RelationField | HasOne | HasMany

text \<open>
  A statement of a class body is either an annotated attribute, which \<open>@dataclass\<close> turns
  into a field (with no default, a default value, or \<open>field(default_factory=list)\<close>), or a
  plain assignment, which stays a class attribute and is no field.
\<close>

datatype dflt = NoDefault | Default pyval | DefaultFactoryList

datatype decl = Ann string dflt | Attr string pyval

fun class_body :: "cls \<Rightarrow> decl list" where
  "class_body BaseField =
    [Ann ''name'' NoDefault,
     Ann ''label'' (Default PyNone),
     Ann ''type'' (Default (PyStr ''BaseField'')),
     Ann ''search_builder_type'' (Default (PyStr ''default'')),
     Ann ''required'' (Default (PyBool False)),
     Ann ''is_array'' (Default (PyBool False)),
     Ann ''exclude_from_list'' (Default (PyBool False)),
     Ann ''exclude_from_detail'' (Default (PyBool False)),
     Ann ''exclude_from_create'' (Default (PyBool False)),
     Ann ''exclude_from_edit'' (Default (PyBool False)),
     Ann ''searchable'' (Default (PyBool True)),
     Ann ''orderable'' (Default (PyBool True)),
     Ann ''render_js'' (Default (PyStr ''js/text.js'')),
     Ann ''form_template'' (Default (PyStr ''forms/input.html'')),
     Ann ''form_js'' (Default PyNone),
     Ann ''display_template'' (Default (PyStr ''displays/text.html'')),
     Ann ''display_js'' (Default PyNone)]"
| "class_body BooleanField =
    [Ann ''type'' (Default (PyStr ''BooleanField'')),
     Ann ''search_builder_type'' (Default (PyStr ''bool'')),
     Ann ''render_js'' (Default (PyStr ''js/bool.js'')),
     Ann ''form_template'' (Default (PyStr ''forms/boolean.html'')),
     Ann ''display_template'' (Default (PyStr ''displays/boolean.html''))]"
| "class_body StringField =
    [Ann ''type'' (Default (PyStr ''StringField'')),
     Ann ''search_builder_type'' (Default (PyStr ''string'')),
     Attr ''input_type'' (PyStr ''text''),
     Attr ''class_'' (PyStr ''field-string form-control''),
     Attr ''error_class'' (PyStr ''is-invalid''),
     Ann ''help_text'' (Default PyNone),
     Ann ''render_js'' (Default (PyStr ''js/text.js'')),
     Ann ''form_template'' (Default (PyStr ''forms/input.html'')),
     Ann ''display_template'' (Default (PyStr ''displays/text.html''))]"
| "class_body NumberField =
    [Ann ''type'' (Default (PyStr ''NumberField'')),
     Ann ''search_builder_type'' (Default (PyStr ''num'')),
     Attr ''input_type'' (PyStr ''number''),
     Ann ''max'' (Default PyNone),
     Ann ''min'' (Default PyNone),
     Ann ''step'' (Default PyNone)]"
| "class_body IntegerField =
    [Ann ''type'' (Default (PyStr ''IntegerField'')),
     Attr ''class_'' (PyStr ''field-integer form-control'')]"
| "class_body DecimalField =
    [Ann ''type'' (Default (PyStr ''DecimalField'')),
     Attr ''step'' (PyStr ''any''),
     Attr ''class_'' (PyStr ''field-decimal form-control'')]"
| "class_body TextAreaField =
    [Ann ''type'' (Default (PyStr ''TextAreaField'')),
     Ann ''maxlength'' (Default PyNone),
     Ann ''minlength'' (Default PyNone),
     Attr ''class_'' (PyStr ''field-textarea form-control''),
     Ann ''form_template'' (Default (PyStr ''forms/textarea.html''))]"
| "class_body TagsField =
    [Ann ''type'' (Default (PyStr ''tags'')),
     Ann ''is_array'' (Default (PyBool True))]"
| "class_body EmailField =
    [Ann ''type'' (Default (PyStr ''email''))]"
| "class_body PhoneField =
    [Attr ''input_type'' (PyStr ''phone'')]"
| "class_body EnumField =
    [Ann ''type'' (Default (PyStr ''enum'')),
     Ann ''search_builder_type'' (Default (PyStr ''string'')),
     Ann ''values'' DefaultFactoryList]"
| "class_body DateTimeField =
    [Ann ''type'' (Default (PyStr ''datetime'')),
     Ann ''output_format'' (Default (PyStr ''%B %d, %Y %H:%M:%S'')),
     Ann ''search_format'' (Default PyNone),
     Ann ''search_builder_type'' (Default (PyStr ''moment-MMMM D, YYYY HH:mm:ss''))]"
| "class_body DateField =
    [Ann ''type'' (Default (PyStr ''date'')),
     Ann ''output_format'' (Default (PyStr ''%B %d, %Y'')),
     Ann ''search_format'' (Default (PyStr ''YYYY-MM-DD'')),
     Ann ''search_builder_type'' (Default (PyStr ''moment-MMMM D, YYYY''))]"
| "class_body TimeField =
    [Ann ''type'' (Default (PyStr ''time'')),
     Ann ''output_format'' (Default (PyStr ''%H:%M:%S'')),
     Ann ''search_format'' (Default (PyStr ''HH:mm:ss'')),
     Ann ''search_builder_type'' (Default (PyStr ''moment-HH:mm:ss''))]"
| "class_body JSONField =
    [Ann ''type'' (Default (PyStr ''json''))]"
| "class_body FileField =
    [Ann ''type'' (Default (PyStr ''file''))]"
| "class_body ImageField =
    [Ann ''type'' (Default (PyStr ''image''))]"
| "class_body RelationField =
    [Ann ''type'' (Default (PyStr ''relation'')),
     Ann ''identity'' (Default PyNone)]"
| "class_body HasOne = []"
| "class_body HasMany =
    [Ann ''many'' (Default (PyBool True)),
     Ann ''is_array'' (Default (PyBool True))]"

text \<open>The method resolution order: the class, then its base, up to \<open>BaseField\<close>.\<close>

fun mro :: "cls \<Rightarrow> cls list" where
  "mro BaseField = [BaseField]"
| "mro BooleanField = [BooleanField, BaseField]"
| "mro StringField = [StringField, BaseField]"
| "mro NumberField = [NumberField, StringField, BaseField]"
| "mro IntegerField = [IntegerField, NumberField, StringField, BaseField]"
| "mro DecimalField = [DecimalField, NumberField, StringField, BaseField]"
| "mro TextAreaField = [TextAreaField, StringField, BaseField]"
| "mro TagsField = [TagsField, BaseField]"
| "mro EmailField = [EmailField, StringField, BaseField]"
| "mro PhoneField = [PhoneField, StringField, BaseField]"
| "mro EnumField = [EnumField, BaseField]"
| "mro DateTimeField = [DateTimeField, BaseField]"
| "mro DateField = [DateField, BaseField]"
| "mro TimeField = [TimeField, BaseField]"
| "mro JSONField = [JSONField, BaseField]"
| "mro FileField = [FileField, BaseField]"
| "mro ImageField = [ImageField, FileField, BaseField]"
| "mro RelationField = [RelationField, BaseField]"
| "mro HasOne = [HasOne, RelationField, BaseField]"
| "mro HasMany = [HasMany, RelationField, BaseField]"

section \<open>What the dataclass decorator generates\<close>

text \<open>
  The fields of a class are collected from the most remote base down to the class itself,
  each annotated attribute assigned into an ordered dictionary: a name met again keeps its
  place and takes the new default. Plain class attributes are skipped.
\<close>

fun add_field :: "(string \<times> dflt) list \<Rightarrow> decl \<Rightarrow> (string \<times> dflt) list" where
  "add_field fs (Ann n d) = AList.update n d fs"
| "add_field fs (Attr n v) = fs"

definition dataclass_fields :: "cls \<Rightarrow> (string \<times> dflt) list" where
  "dataclass_fields c = foldl add_field [] (concat (map class_body (rev (mro c))))"

text \<open>
  The namespace of one class after the decorator has run: every assignment of the body with a
  value. An annotation without a value binds nothing, and the decorator deletes the
  placeholder of a default factory.
\<close>

fun bind_decl :: "(string \<times> pyval) list \<Rightarrow> decl \<Rightarrow> (string \<times> pyval) list" where
  "bind_decl ns (Ann n (Default v)) = AList.update n v ns"
| "bind_decl ns (Ann n NoDefault) = ns"
| "bind_decl ns (Ann n DefaultFactoryList) = ns"
| "bind_decl ns (Attr n v) = AList.update n v ns"

definition class_dict :: "cls \<Rightarrow> (string \<times> pyval) list" where
  "class_dict b = foldl bind_decl [] (class_body b)"

fun class_lookup :: "cls list \<Rightarrow> string \<Rightarrow> pyval option" where
  "class_lookup [] a = None"
| "class_lookup (b # bs) a =
     (case map_of (class_dict b) a of
        Some v \<Rightarrow> Some v
      | None \<Rightarrow> class_lookup bs a)"

record obj =
  cls_of :: cls
  attrs :: "(string \<times> pyval) list"

text \<open>
  Reading a data attribute: the instance dictionary first, then the classes of the method
  resolution order; \<open>AttributeError\<close> when neither has it. (Methods are modelled as
  functions below, not as attributes.)
\<close>

definition getattr :: "obj \<Rightarrow> string \<Rightarrow> error + pyval" where
  "getattr self a =
     (case map_of (attrs self) a of
        Some v \<Rightarrow> Inr v
      | None \<Rightarrow>
         (case class_lookup (mro (cls_of self)) a of
            Some v \<Rightarrow> Inr v
          | None \<Rightarrow> Inl AttributeError))"

definition setattr :: "obj \<Rightarrow> string \<Rightarrow> pyval \<Rightarrow> obj" where
  "setattr self a v = self\<lparr>attrs := AList.update a v (attrs self)\<rparr>"

text \<open>
  The generated \<open>__init__\<close> has one parameter per field, in field order. The call is given
  as its keyword arguments (a positional \<open>name\<close> is the keyword \<open>name\<close>). A keyword that
  is no field, a keyword given twice and a missing argument without default are
  \<open>TypeError\<close>. Each field is then assigned the argument, or its default.
\<close>

fun init_value :: "(string \<times> pyval) list \<Rightarrow> string \<times> dflt \<Rightarrow> error + pyval" where
  "init_value kw (n, d) =
     (case map_of kw n of
        Some v \<Rightarrow> Inr v
      | None \<Rightarrow>
         (case d of
            NoDefault \<Rightarrow> Inl TypeError
          | Default v \<Rightarrow> Inr v
          | DefaultFactoryList \<Rightarrow> Inr (PyList [])))"

fun init_fields :: "(string \<times> pyval) list \<Rightarrow> (string \<times> dflt) list
    \<Rightarrow> error + (string \<times> pyval) list" where
  "init_fields kw [] = Inr []"
| "init_fields kw (f # fs) =
     (case init_value kw f of
        Inl e \<Rightarrow> Inl e
      | Inr v \<Rightarrow>
         (case init_fields kw fs of
            Inl e \<Rightarrow> Inl e
          | Inr r \<Rightarrow> Inr ((fst f, v) # r)))"

definition init :: "cls \<Rightarrow> (string \<times> pyval) list \<Rightarrow> error + obj" where
  "init c kw =
     (if distinct (map fst kw) \<and> list_all (\<lambda>k. k \<in> set (map fst (dataclass_fields c))) (map fst kw)
      then (case init_fields kw (dataclass_fields c) of
              Inl e \<Rightarrow> Inl e
            | Inr a \<Rightarrow> Inr \<lparr>cls_of = c, attrs = a\<rparr>)
      else Inl TypeError)"

text \<open>
  \<open>BaseField.__post_init__\<close>, inherited by every class. The label it derives is
  \<open>self.name.replace("_", " ").capitalize()\<close>. Only a string has the method
  \<open>replace\<close>: another \<open>name\<close> raises \<open>AttributeError\<close>.
\<close>

definition derive_label :: "string \<Rightarrow> string" where
  "derive_label name = capitalize (str_replace CHR ''_'' CHR '' '' name)"

definition post_init :: "obj \<Rightarrow> error + obj" where
  "post_init self =
     (case getattr self ''label'' of
        Inl e \<Rightarrow> Inl e
      | Inr PyNone \<Rightarrow>
         (case getattr self ''name'' of
            Inl e \<Rightarrow> Inl e
          | Inr (PyStr n) \<Rightarrow>
              Inr (setattr self ''label'' (PyStr (derive_label n)))
          | Inr _ \<Rightarrow> Inl AttributeError)
      | Inr _ \<Rightarrow> Inr self)"

text \<open>Calling the class: \<open>__init__\<close>, which ends by calling \<open>__post_init__\<close>.\<close>

definition construct :: "cls \<Rightarrow> (string \<times> pyval) list \<Rightarrow> error + obj" where
  "construct c kw = (case init c kw of Inl e \<Rightarrow> Inl e | Inr self \<Rightarrow> post_init self)"

text \<open>Reading an attribute of the result of a call that may have raised.\<close>

definition attr_of :: "error + obj \<Rightarrow> string \<Rightarrow> error + pyval" where
  "attr_of r a = (case r of Inl e \<Rightarrow> Inl e | Inr self \<Rightarrow> getattr self a)"

text \<open>Calling a method on the result of a call that may have raised.\<close>

definition and_then :: "error + 'a \<Rightarrow> ('a \<Rightarrow> error + 'b) \<Rightarrow> error + 'b" where
  "and_then r f = (case r of Inl e \<Rightarrow> Inl e | Inr x \<Rightarrow> f x)"

text \<open>
  \<open>BaseField.dict\<close> is \<open>dataclasses.asdict\<close>: one entry per field, in field order, the
  value read from the instance. (The deep copy it makes of lists and dictionaries is the
  identity on values.)
\<close>

fun asdict_fields :: "obj \<Rightarrow> string list \<Rightarrow> error + (string \<times> pyval) list" where
  "asdict_fields self [] = Inr []"
| "asdict_fields self (n # ns) =
     (case getattr self n of
        Inl e \<Rightarrow> Inl e
      | Inr v \<Rightarrow>
         (case asdict_fields self ns of
            Inl e \<Rightarrow> Inl e
          | Inr r \<Rightarrow> Inr ((n, v) # r)))"

definition dict :: "obj \<Rightarrow> error + (string \<times> pyval) list" where
  "dict self = asdict_fields self (map fst (dataclass_fields (cls_of self)))"

section \<open>EnumField.from_enum\<close>

text \<open>
  The argument \<open>enum_type\<close> is a class, and \<open>from_enum\<close> iterates over it. Iterating an
  \<open>Enum\<close> subclass yields its members (aliases are no members) in definition order, each
  with a \<open>name\<close> and a \<open>value\<close>. A class whose metaclass is \<open>type\<close>, as \<open>int\<close> or any
  ordinary class, is not iterable: \<open>map\<close> raises \<open>TypeError\<close>. A class that is no \<open>Enum\<close>
  but whose metaclass defines \<open>__iter__\<close> yields whatever objects that method yields; an
  object is given by its attributes \<open>name\<close> and \<open>value\<close>, where it has them.
\<close>

type_synonym item = "pyval option \<times> pyval option"

datatype pytype =
    EnumType "(string \<times> pyval) list"
  | PlainType
  | IterableType "item list"

fun iterate :: "pytype \<Rightarrow> error + item list" where
  "iterate (EnumType ms) = Inr (map (\<lambda>(n, v). (Some (PyStr n), Some v)) ms)"
| "iterate PlainType = Inl TypeError"
| "iterate (IterableType xs) = Inr xs"

text \<open>\<open>lambda e: dict(name=e.name, value=e.value)\<close>\<close>

fun entry :: "item \<Rightarrow> error + pyval" where
  "entry (Some n, Some v) = Inr (PyDict [(''name'', n), (''value'', v)])"
| "entry (None, _) = Inl AttributeError"
| "entry (Some n, None) = Inl AttributeError"

fun map_entries :: "item list \<Rightarrow> error + pyval list" where
  "map_entries [] = Inr []"
| "map_entries (x # xs) =
     (case entry x of
        Inl e \<Rightarrow> Inl e
      | Inr d \<Rightarrow>
         (case map_entries xs of
            Inl e \<Rightarrow> Inl e
          | Inr ds \<Rightarrow> Inr (d # ds)))"

fun opt_str :: "string option \<Rightarrow> pyval" where
  "opt_str None = PyNone"
| "opt_str (Some s) = PyStr s"

definition from_enum :: "string \<Rightarrow> pytype \<Rightarrow> bool \<Rightarrow> bool \<Rightarrow> string option \<Rightarrow> error + obj" where
  "from_enum name enum_type is_array searchable search_builder_type =
     (case iterate enum_type of
        Inl e \<Rightarrow> Inl e
      | Inr xs \<Rightarrow>
         (case map_entries xs of
            Inl e \<Rightarrow> Inl e
          | Inr vals \<Rightarrow>
              construct EnumField
                [(''name'', PyStr name),
                 (''values'', PyList vals),
                 (''is_array'', PyBool is_array),
                 (''searchable'', PyBool searchable),
                 (''search_builder_type'', opt_str search_builder_type)]))"

text \<open>The call with the defaults of the optional parameters.\<close>

definition from_enum_default :: "string \<Rightarrow> pytype \<Rightarrow> error + obj" where
  "from_enum_default name enum_type = from_enum name enum_type False True (Some ''string'')"

section \<open>The input attribute string\<close>

text \<open>
  Python's \<open>str\<close> of a value. An integer is printed in decimal. A list or a dictionary
  prints its items with \<open>repr\<close>, which puts a string in quotes: single quotes, unless the
  string has a single quote and no double quote; the quote in use and the backslash are
  escaped with a backslash, tab, newline and carriage return are written \<open>\t\<close>, \<open>\n\<close>,
  \<open>\r\<close> (other control characters are left as they are).
\<close>

fun digit :: "nat \<Rightarrow> char" where
  "digit d = char_of (48 + d)"

fun str_nat :: "nat \<Rightarrow> string" where
  "str_nat n = (if n < 10 then [digit n] else str_nat (n div 10) @ [digit (n mod 10)])"

definition str_int :: "int \<Rightarrow> string" where
  "str_int i = (if i < 0 then CHR ''-'' # str_nat (nat (- i)) else str_nat (nat i))"

fun join :: "string \<Rightarrow> string list \<Rightarrow> string" where
  "join sep [] = []"
| "join sep [x] = x"
| "join sep (x # y # ys) = x @ sep @ join sep (y # ys)"

definition repr_char :: "char \<Rightarrow> char \<Rightarrow> string" where
  "repr_char q c =
     (if c = q \<or> c = CHR 0x5C then [CHR 0x5C, c]
      else if c = CHR 0x09 then [CHR 0x5C, CHR ''t'']
      else if c = CHR 0x0A then [CHR 0x5C, CHR ''n'']
      else if c = CHR 0x0D then [CHR 0x5C, CHR ''r'']
      else [c])"

definition repr_str :: "string \<Rightarrow> string" where
  "repr_str s =
     (let q = (if CHR 0x27 \<in> set s \<and> CHR 0x22 \<notin> set s then CHR 0x22 else CHR 0x27)
      in [q] @ concat (map (repr_char q) s) @ [q])"

fun py_str :: "pyval \<Rightarrow> string" and py_repr :: "pyval \<Rightarrow> string" where
  "py_str PyNone = ''None''"
| "py_str (PyBool b) = (if b then ''True'' else ''False'')"
| "py_str (PyInt i) = str_int i"
| "py_str (PyStr s) = s"
| "py_str (PyList xs) = ''['' @ join '', '' (map py_repr xs) @ '']''"
| "py_str (PyDict kvs) =
     ''{'' @ join '', '' (map (\<lambda>kv. repr_str (fst kv) @ '': '' @ py_repr (snd kv)) kvs) @ ''}''"
| "py_repr (PyStr s) = repr_str s"
| "py_repr PyNone = py_str PyNone"
| "py_repr (PyBool b) = py_str (PyBool b)"
| "py_repr (PyInt i) = py_str (PyInt i)"
| "py_repr (PyList xs) = py_str (PyList xs)"
| "py_repr (PyDict kvs) = py_str (PyDict kvs)"

text \<open>
  Modelled from the spec: the parts of \<open>html_params\<close>, which the source imports from
  \<open>starlette_admin.helpers\<close> and which is not part of it. A pair is omitted when its value
  is absent (\<open>None\<close>) or empty (the empty string); a value is escaped for embedding in
  markup (the five characters of markup are replaced); a pair is written \<open>key="value"\<close>.
\<close>

fun absent :: "pyval \<Rightarrow> bool" where
  "absent PyNone = True"
| "absent (PyStr s) = (s = [])"
| "absent _ = False"

definition escape_char :: "char \<Rightarrow> string" where
  "escape_char c =
     (if c = CHR ''&'' then ''&amp;''
      else if c = CHR ''<'' then ''&lt;''
      else if c = CHR ''>'' then ''&gt;''
      else if c = CHR 0x22 then ''&#34;''
      else if c = CHR 0x27 then ''&#39;''
      else [c])"

definition escape :: "string \<Rightarrow> string" where
  "escape s = concat (map escape_char s)"

definition pair :: "string \<Rightarrow> pyval \<Rightarrow> string" where
  "pair k v = k @ [CHR ''='', CHR 0x22] @ escape (py_str v) @ [CHR 0x22]"

text \<open>
  Modelled from the spec: \<open>html_params\<close> of \<open>starlette_admin.helpers\<close>. The spec: given
  a mapping of attribute name to optional value, produce a single string of \<open>key="value"\<close>
  pairs joined by a space, omitting any pair whose value is absent or empty, with values
  escaped for safe embedding in markup.
\<close>

definition html_params :: "(string \<times> pyval) list \<Rightarrow> string" where
  "html_params kvs =
     join '' '' (map (\<lambda>(k, v). pair k v) (filter (\<lambda>(k, v). \<not> absent v) kvs))"

text \<open>
  \<open>input_params\<close> is defined by \<open>StringField\<close> and overridden by \<open>_NumberField\<close> and
  \<open>TextAreaField\<close>; the other classes of the module have no such method. Each definition
  builds \<open>dict(key=self.attribute, ...)\<close>, given here as the list of its keys with the
  attribute read for each, and passes it to \<open>html_params\<close>.
\<close>

fun input_params_args :: "cls \<Rightarrow> (string \<times> string) list option" where
  "input_params_args StringField = Some [(''type'', ''input_type'')]"
| "input_params_args NumberField =
     Some [(''type'', ''input_type''), (''min'', ''min''), (''max'', ''max''), (''step'', ''step'')]"
| "input_params_args TextAreaField = Some [(''minlength'', ''minlength''), (''maxlength'', ''maxlength'')]"
| "input_params_args _ = None"

fun method_lookup :: "cls list \<Rightarrow> (string \<times> string) list option" where
  "method_lookup [] = None"
| "method_lookup (b # bs) =
     (case input_params_args b of Some d \<Rightarrow> Some d | None \<Rightarrow> method_lookup bs)"

fun read_attrs :: "obj \<Rightarrow> (string \<times> string) list \<Rightarrow> error + (string \<times> pyval) list" where
  "read_attrs self [] = Inr []"
| "read_attrs self ((k, a) # kas) =
     (case getattr self a of
        Inl e \<Rightarrow> Inl e
      | Inr v \<Rightarrow>
         (case read_attrs self kas of
            Inl e \<Rightarrow> Inl e
          | Inr r \<Rightarrow> Inr ((k, v) # r)))"

definition input_params :: "obj \<Rightarrow> error + string" where
  "input_params self =
     (case method_lookup (mro (cls_of self)) of
        None \<Rightarrow> Inl AttributeError
      | Some d \<Rightarrow>
         (case read_attrs self d of
            Inl e \<Rightarrow> Inl e
          | Inr kvs \<Rightarrow> Inr (html_params kvs)))"

text \<open>
  The pair that \<open>html_params\<close> writes for a key: none when the value is absent or empty.
\<close>

definition emit :: "string \<Rightarrow> pyval \<Rightarrow> string list" where
  "emit k v = (if absent v then [] else [pair k v])"

text \<open>Python's \<open>x in s\<close> on strings: \<open>x\<close> occurs in \<open>s\<close>.\<close>

fun contains :: "string \<Rightarrow> string \<Rightarrow> bool" where
  "contains [] x = (x = [])"
| "contains (c # cs) x = (take (length x) (c # cs) = x \<or> contains cs x)"

text \<open>The argument of a call for a parameter with default \<open>None\<close>.\<close>

definition arg_or_none :: "(string \<times> pyval) list \<Rightarrow> string \<Rightarrow> pyval" where
  "arg_or_none kw n = (case map_of kw n of None \<Rightarrow> PyNone | Some v \<Rightarrow> v)"

section \<open>Evaluating the model\<close>

lemmas model_defs = attr_of_def and_then_def construct_def init_def dataclass_fields_def
  post_init_def derive_label_def getattr_def setattr_def class_dict_def

section \<open>Facts about construction\<close>

text \<open>The field names of a class are distinct, and a call assigns exactly these.\<close>

lemma add_field_distinct: "distinct (map fst fs) \<Longrightarrow> distinct (map fst (add_field fs d))"
  by (cases d) (simp_all add: AList.distinct_update)

lemma foldl_add_field_distinct:
  "distinct (map fst fs) \<Longrightarrow> distinct (map fst (foldl add_field fs ds))"
  by (induction ds arbitrary: fs) (simp_all add: add_field_distinct)

lemma dataclass_fields_distinct: "distinct (map fst (dataclass_fields c))"
  by (simp add: dataclass_fields_def foldl_add_field_distinct)

lemma init_fields_keys: "init_fields kw fs = Inr a \<Longrightarrow> map fst a = map fst fs"
  by (induction fs arbitrary: a) (auto split: sum.splits)

lemma init_fields_lookup:
  "init_fields kw fs = Inr a \<Longrightarrow> map_of fs n = Some d
     \<Longrightarrow> \<exists>v. init_value kw (n, d) = Inr v \<and> map_of a n = Some v"
proof (induction fs arbitrary: a)
  case Nil
  then show ?case by simp
next
  case (Cons f fs)
  obtain m e where f: "f = (m, e)" by (cases f)
  from Cons.prems(1) obtain v r where v: "init_value kw f = Inr v"
    and r: "init_fields kw fs = Inr r" and a: "a = (fst f, v) # r"
    by (auto split: sum.splits)
  show ?case
  proof (cases "m = n")
    case True
    with Cons.prems(2) f have "e = d" by simp
    with True f v a show ?thesis by simp
  next
    case False
    with Cons.prems(2) f have "map_of fs n = Some d" by simp
    from Cons.IH [OF r this] False f a show ?thesis by simp
  qed
qed

lemma base_fields_head:
  "\<exists>rest. dataclass_fields c = (''name'', NoDefault) # (''label'', Default PyNone) # rest"
proof -
  have "list_all (\<lambda>c. take 2 (dataclass_fields c)
          = [(''name'', NoDefault), (''label'', Default PyNone)])
      [BaseField, BooleanField, StringField, NumberField, IntegerField, DecimalField,
       TextAreaField, TagsField, EmailField, PhoneField, EnumField, DateTimeField, DateField,
       TimeField, JSONField, FileField, ImageField, RelationField, HasOne, HasMany]"
    by code_simp
  then have "take 2 (dataclass_fields c) = [(''name'', NoDefault), (''label'', Default PyNone)]"
    by (cases c) simp_all
  then have "dataclass_fields c
      = (''name'', NoDefault) # (''label'', Default PyNone) # drop 2 (dataclass_fields c)"
    by (metis append_take_drop_id append_Cons append_Nil)
  then show ?thesis by blast
qed

lemma label_field: "map_of (dataclass_fields c) ''label'' = Some (Default PyNone)"
  using base_fields_head [of c] by auto

lemma name_field: "map_of (dataclass_fields c) ''name'' = Some NoDefault"
  using base_fields_head [of c] by auto


lemma construct_cases:
  assumes "construct c kw = Inr self"
  shows "\<exists>a. init_fields kw (dataclass_fields c) = Inr a
           \<and> ((\<exists>v. map_of a ''label'' = Some v \<and> v \<noteq> PyNone \<and> self = \<lparr>cls_of = c, attrs = a\<rparr>)
              \<or> (\<exists>n. map_of a ''label'' = Some PyNone \<and> map_of a ''name'' = Some (PyStr n)
                    \<and> self = \<lparr>cls_of = c, attrs = AList.update ''label'' (PyStr (derive_label n)) a\<rparr>))"
proof -
  from assms obtain a where a: "init_fields kw (dataclass_fields c) = Inr a"
    and p: "post_init \<lparr>cls_of = c, attrs = a\<rparr> = Inr self"
    by (auto simp: construct_def init_def split: if_splits sum.splits)
  from init_fields_lookup [OF a label_field] obtain v where v: "map_of a ''label'' = Some v"
    by blast
  from init_fields_lookup [OF a name_field] obtain w where w: "map_of a ''name'' = Some w"
    by blast
  from p v w have "(v \<noteq> PyNone \<and> self = \<lparr>cls_of = c, attrs = a\<rparr>)
      \<or> (\<exists>n. v = PyNone \<and> w = PyStr n
            \<and> self = \<lparr>cls_of = c, attrs = AList.update ''label'' (PyStr (derive_label n)) a\<rparr>)"
    by (auto simp: post_init_def getattr_def setattr_def split: pyval.splits)
  with a v w show ?thesis by auto
qed



lemma construct_cls: "construct c kw = Inr self \<Longrightarrow> cls_of self = c"
  using construct_cases [of c kw self] by auto

lemma update_present_keys: "map_of al k = Some w \<Longrightarrow> map fst (AList.update k v al) = map fst al"
  by (induction al) (auto split: if_splits)

lemma construct_keys:
  assumes "construct c kw = Inr self"
  shows "map fst (attrs self) = map fst (dataclass_fields c)"
proof -
  from construct_cases [OF assms] obtain a where a: "init_fields kw (dataclass_fields c) = Inr a"
    and s: "(\<exists>v. map_of a ''label'' = Some v \<and> v \<noteq> PyNone \<and> self = \<lparr>cls_of = c, attrs = a\<rparr>)
       \<or> (\<exists>n. map_of a ''label'' = Some PyNone \<and> map_of a ''name'' = Some (PyStr n)
             \<and> self = \<lparr>cls_of = c, attrs = AList.update ''label'' (PyStr (derive_label n)) a\<rparr>)"
    by blast
  from s have "map fst (attrs self) = map fst a"
    by (auto simp: update_present_keys)
  with init_fields_keys [OF a] show ?thesis by simp
qed

lemma construct_label:
  "construct c kw = Inr self \<Longrightarrow> \<exists>v. map_of (attrs self) ''label'' = Some v \<and> v \<noteq> PyNone"
  using construct_cases [of c kw self]
  by (auto simp: AList.update_conv')

lemma construct_field:
  assumes "construct c kw = Inr self" and "map_of (dataclass_fields c) n = Some d" and "n \<noteq> ''label''"
  shows "\<exists>v. init_value kw (n, d) = Inr v \<and> getattr self n = Inr v"
proof -
  from construct_cases [OF assms(1)] obtain a where a: "init_fields kw (dataclass_fields c) = Inr a"
    and s: "(\<exists>v. map_of a ''label'' = Some v \<and> v \<noteq> PyNone \<and> self = \<lparr>cls_of = c, attrs = a\<rparr>)
       \<or> (\<exists>n. map_of a ''label'' = Some PyNone \<and> map_of a ''name'' = Some (PyStr n)
             \<and> self = \<lparr>cls_of = c, attrs = AList.update ''label'' (PyStr (derive_label n)) a\<rparr>)"
    by blast
  from init_fields_lookup [OF a assms(2)] obtain v where v: "init_value kw (n, d) = Inr v"
    and m: "map_of a n = Some v" by blast
  from s m assms(3) have "map_of (attrs self) n = Some v"
    by (auto simp: AList.update_conv')
  with v show ?thesis by (simp add: getattr_def)
qed

lemma construct_derived_label:
  assumes "construct c kw = Inr self" and "map_of kw ''name'' = Some (PyStr n)"
    and "map_of kw ''label'' = None \<or> map_of kw ''label'' = Some PyNone"
  shows "getattr self ''label'' = Inr (PyStr (derive_label n))"
proof -
  from construct_cases [OF assms(1)] obtain a where a: "init_fields kw (dataclass_fields c) = Inr a"
    and s: "(\<exists>v. map_of a ''label'' = Some v \<and> v \<noteq> PyNone \<and> self = \<lparr>cls_of = c, attrs = a\<rparr>)
       \<or> (\<exists>n. map_of a ''label'' = Some PyNone \<and> map_of a ''name'' = Some (PyStr n)
             \<and> self = \<lparr>cls_of = c, attrs = AList.update ''label'' (PyStr (derive_label n)) a\<rparr>)"
    by blast
  from init_fields_lookup [OF a label_field] assms(3) have l: "map_of a ''label'' = Some PyNone"
    by auto
  from init_fields_lookup [OF a name_field] assms(2) have "map_of a ''name'' = Some (PyStr n)"
    by auto
  with s l have "self = \<lparr>cls_of = c, attrs = AList.update ''label'' (PyStr (derive_label n)) a\<rparr>"
    by auto
  then show ?thesis by (simp add: getattr_def AList.update_conv')
qed

lemma asdict_fields_attrs:
  "distinct (map fst a) \<Longrightarrow> set b \<subseteq> set a
     \<Longrightarrow> asdict_fields \<lparr>cls_of = c, attrs = a\<rparr> (map fst b) = Inr b"
  by (induction b) (auto simp: getattr_def)

lemma init_fields_attrs:
  "distinct (map fst a) \<Longrightarrow> set b \<subseteq> set a \<Longrightarrow> map fst b = map fst fs
     \<Longrightarrow> init_fields a fs = Inr b"
proof (induction fs arbitrary: b)
  case Nil
  then show ?case by simp
next
  case (Cons f fs)
  then obtain x b' where b: "b = x # b'" by (cases b) auto
  from b Cons.prems(2) have "(fst x, snd x) \<in> set a" by simp
  with Cons.prems(1) have "map_of a (fst x) = Some (snd x)" by (rule map_of_is_SomeI)
  moreover from b Cons.prems have "fst f = fst x" by simp
  moreover from b Cons.prems Cons.IH [of b'] have "init_fields a fs = Inr b'" by simp
  ultimately show ?case using b by (cases f) simp
qed

lemma derive_label_empty: "derive_label n = [] \<longleftrightarrow> n = []"
  by (cases n) (simp_all add: derive_label_def str_replace_def)

lemma add_field_names:
  "fst ` set (add_field fs d) = fst ` set fs \<union> {n. \<exists>df. d = Ann n df}"
  by (cases d) (auto simp: AList.dom_update)

lemma foldl_add_field_names:
  "fst ` set (foldl add_field fs ds) = fst ` set fs \<union> {n. \<exists>df. Ann n df \<in> set ds}"
proof (induction ds arbitrary: fs)
  case Nil
  then show ?case by simp
next
  case (Cons d ds)
  have "fst ` set (foldl add_field fs (d # ds))
      = fst ` set (add_field fs d) \<union> {n. \<exists>df. Ann n df \<in> set ds}"
    using Cons.IH [of "add_field fs d"] by simp
  also have "\<dots> = fst ` set fs \<union> {n. \<exists>df. Ann n df \<in> set (d # ds)}"
    by (auto simp: add_field_names)
  finally show ?case .
qed

lemma dataclass_fields_names:
  "n \<in> set (map fst (dataclass_fields c))
     \<longleftrightarrow> (\<exists>b \<in> set (mro c). \<exists>df. Ann n df \<in> set (class_body b))"
  by (auto simp: dataclass_fields_def foldl_add_field_names)

lemma construct_distinct: "construct c kw = Inr self \<Longrightarrow> distinct (map fst (attrs self))"
  by (simp add: construct_keys dataclass_fields_distinct)

lemma construct_dict:
  assumes "construct c kw = Inr self"
  shows "dict self = Inr (attrs self)"
proof -
  have self: "\<lparr>cls_of = c, attrs = attrs self\<rparr> = self"
    using construct_cls [OF assms] by (cases self) simp
  have "dict self = asdict_fields self (map fst (attrs self))"
    using construct_keys [OF assms] construct_cls [OF assms] by (simp add: dict_def)
  also have "\<dots> = Inr (attrs self)"
    using asdict_fields_attrs [OF construct_distinct [OF assms], of "attrs self" c]
    by (simp add: self)
  finally show ?thesis .
qed

text \<open>Attributes of the class, the input attribute string, and classes with the same fields.\<close>

lemma getattr_class_attr:
  assumes "construct c kw = Inr self" and "a \<notin> set (map fst (dataclass_fields c))"
  shows "getattr self a
    = (case class_lookup (mro c) a of Some v \<Rightarrow> Inr v | None \<Rightarrow> Inl AttributeError)"
proof -
  have "fst ` set (attrs self) = set (map fst (attrs self))" by simp
  also have "\<dots> = set (map fst (dataclass_fields c))"
    by (simp only: construct_keys [OF assms(1)])
  finally have "a \<notin> fst ` set (attrs self)" using assms(2) by simp
  then have "map_of (attrs self) a = None" by (simp add: map_of_eq_None_iff)
  with construct_cls [OF assms(1)] show ?thesis by (simp add: getattr_def)
qed

lemma html_params_emit:
  "html_params [(k1, v1), (k2, v2), (k3, v3), (k4, v4)]
     = join '' '' (emit k1 v1 @ emit k2 v2 @ emit k3 v3 @ emit k4 v4)"
  by (simp add: html_params_def emit_def)

lemma number_fields:
  assumes "c = NumberField \<or> c = IntegerField \<or> c = DecimalField"
  shows "method_lookup (mro c)
      = Some [(''type'', ''input_type''), (''min'', ''min''), (''max'', ''max''), (''step'', ''step'')]"
    and "''input_type'' \<notin> set (map fst (dataclass_fields c))"
    and "class_lookup (mro c) ''input_type'' = Some (PyStr ''number'')"
    and "map_of (dataclass_fields c) ''min'' = Some (Default PyNone)"
    and "map_of (dataclass_fields c) ''max'' = Some (Default PyNone)"
    and "map_of (dataclass_fields c) ''step'' = Some (Default PyNone)"
proof -
  have "\<forall>c \<in> set [NumberField, IntegerField, DecimalField].
      method_lookup (mro c)
        = Some [(''type'', ''input_type''), (''min'', ''min''), (''max'', ''max''), (''step'', ''step'')]
      \<and> ''input_type'' \<notin> set (map fst (dataclass_fields c))
      \<and> class_lookup (mro c) ''input_type'' = Some (PyStr ''number'')
      \<and> map_of (dataclass_fields c) ''min'' = Some (Default PyNone)
      \<and> map_of (dataclass_fields c) ''max'' = Some (Default PyNone)
      \<and> map_of (dataclass_fields c) ''step'' = Some (Default PyNone)"
    by code_simp
  with assms show
    "method_lookup (mro c)
      = Some [(''type'', ''input_type''), (''min'', ''min''), (''max'', ''max''), (''step'', ''step'')]"
    "''input_type'' \<notin> set (map fst (dataclass_fields c))"
    "class_lookup (mro c) ''input_type'' = Some (PyStr ''number'')"
    "map_of (dataclass_fields c) ''min'' = Some (Default PyNone)"
    "map_of (dataclass_fields c) ''max'' = Some (Default PyNone)"
    "map_of (dataclass_fields c) ''step'' = Some (Default PyNone)"
    by auto
qed

lemma number_input_params:
  assumes c: "c = NumberField \<or> c = IntegerField \<or> c = DecimalField"
    and s: "construct c kw = Inr self"
  shows "getattr self ''min'' = Inr (arg_or_none kw ''min'')
    \<and> getattr self ''max'' = Inr (arg_or_none kw ''max'')
    \<and> getattr self ''step'' = Inr (arg_or_none kw ''step'')
    \<and> input_params self
        = Inr (join '' '' (pair ''type'' (PyStr ''number'')
                 # emit ''min'' (arg_or_none kw ''min'')
                 @ emit ''max'' (arg_or_none kw ''max'')
                 @ emit ''step'' (arg_or_none kw ''step'')))"
proof -
  note nf = number_fields [OF c]
  have t: "getattr self ''input_type'' = Inr (PyStr ''number'')"
    using getattr_class_attr [OF s nf(2)] nf(3) by simp
  have mn: "getattr self ''min'' = Inr (arg_or_none kw ''min'')"
    using construct_field [OF s nf(4)] by (auto simp: arg_or_none_def split: option.splits)
  have mx: "getattr self ''max'' = Inr (arg_or_none kw ''max'')"
    using construct_field [OF s nf(5)] by (auto simp: arg_or_none_def split: option.splits)
  have st: "getattr self ''step'' = Inr (arg_or_none kw ''step'')"
    using construct_field [OF s nf(6)] by (auto simp: arg_or_none_def split: option.splits)
  have "emit ''type'' (PyStr ''number'') = [pair ''type'' (PyStr ''number'')]"
    by (simp add: emit_def)
  with t mn mx st nf(1) construct_cls [OF s] show ?thesis
    by (simp add: input_params_def html_params_emit)
qed







section \<open>The derived label\<close>

text \<open>
  Claim C1 says that a label that is not given is the name with every underscore replaced
  by a space and the first letter capitalized. \<open>str.capitalize\<close> also lower-cases every
  other letter: the name \<open>userID\<close> gets the label \<open>Userid\<close>, where capitalizing the
  first letter alone gives \<open>UserID\<close>.
\<close>

theorem label_capitalize_counterexample:
  "attr_of (construct BaseField [(''name'', PyStr ''userID'')]) ''label'' = Inr (PyStr ''Userid'')
   \<and> capitalize_first_letter (str_replace CHR ''_'' CHR '' '' ''userID'') = ''UserID''"
  by code_simp

text \<open>
  Claim C1, amended. For every class of the module and every call that succeeds, with an
  ASCII name and without a label (or with the label \<open>None\<close>), the label is the name with
  every underscore replaced by a space, the first character upper-cased and every other
  character lower-cased.
\<close>

theorem label_derived:
  assumes "construct c kw = Inr self"
    and "map_of kw ''name'' = Some (PyStr n)"
    and "isascii n"
    and "map_of kw ''label'' = None \<or> map_of kw ''label'' = Some PyNone"
  shows "getattr self ''label'' = Inr (PyStr (capitalize (str_replace CHR ''_'' CHR '' '' n)))"
  using construct_derived_label [OF assms(1,2,4)] by (simp add: derive_label_def)

text \<open>
  The amended claim C1 at the name \<open>email_address\<close>, whose label is
  \<open>Email address\<close>.
\<close>

theorem label_derived_witness:
  "(\<exists>self. construct BaseField [(''name'', PyStr ''email_address'')] = Inr self)
   \<and> map_of [(''name'', PyStr ''email_address'')] ''name'' = Some (PyStr ''email_address'')
   \<and> isascii ''email_address''
   \<and> map_of [(''name'', PyStr ''email_address'')] ''label'' = None
   \<and> attr_of (construct BaseField [(''name'', PyStr ''email_address'')]) ''label''
       = Inr (PyStr ''Email address'')"
proof -
  have ex: "\<exists>self. construct BaseField [(''name'', PyStr ''email_address'')] = Inr self"
    by (simp add: model_defs)
  then obtain self where s: "construct BaseField [(''name'', PyStr ''email_address'')] = Inr self" ..
  have a: "isascii ''email_address''"
    by code_simp
  have "getattr self ''label''
      = Inr (PyStr (capitalize (str_replace CHR ''_'' CHR '' '' ''email_address'')))"
    by (rule label_derived [OF s _ a]) simp_all
  moreover have "capitalize (str_replace CHR ''_'' CHR '' '' ''email_address'') = ''Email address''"
    by code_simp
  ultimately have "attr_of (construct BaseField [(''name'', PyStr ''email_address'')]) ''label''
      = Inr (PyStr ''Email address'')"
    by (simp add: s attr_of_def)
  with ex a show ?thesis by simp
qed

text \<open>
  Claim C6 says that the label is a non-empty string once construction has completed.
  Nothing checks the name or a given label: the empty name gets the empty label.
\<close>

theorem empty_label_counterexample:
  "attr_of (construct BaseField [(''name'', PyStr [])]) ''label'' = Inr (PyStr [])"
  by code_simp

text \<open>
  Claim C6, amended. After a construction that succeeds the label is never \<open>None\<close>: it
  is the label given, when one other than \<open>None\<close> was given, and otherwise, for an ASCII
  name, the derived label, a string that is empty only when the name is empty. The label is
  not computed again when \<open>name\<close> is assigned after construction.
\<close>

theorem label_set_and_kept:
  assumes "construct c kw = Inr self"
  shows "(\<exists>v. getattr self ''label'' = Inr v \<and> v \<noteq> PyNone)
    \<and> (\<forall>v. map_of kw ''label'' = Some v \<and> v \<noteq> PyNone \<longrightarrow> getattr self ''label'' = Inr v)
    \<and> (\<forall>n. map_of kw ''name'' = Some (PyStr n) \<and> isascii n
            \<and> (map_of kw ''label'' = None \<or> map_of kw ''label'' = Some PyNone)
          \<longrightarrow> (\<exists>l. getattr self ''label'' = Inr (PyStr l) \<and> (l = [] \<longleftrightarrow> n = [])))
    \<and> getattr (setattr self ''name'' x) ''label'' = getattr self ''label''"
proof -
  from construct_label [OF assms] have 1: "\<exists>v. getattr self ''label'' = Inr v \<and> v \<noteq> PyNone"
    by (auto simp: getattr_def)
  have 2: "getattr self ''label'' = Inr v" if "map_of kw ''label'' = Some v" and "v \<noteq> PyNone" for v
  proof -
    from construct_cases [OF assms] obtain a where a: "init_fields kw (dataclass_fields c) = Inr a"
      and s: "(\<exists>v. map_of a ''label'' = Some v \<and> v \<noteq> PyNone \<and> self = \<lparr>cls_of = c, attrs = a\<rparr>)
         \<or> (\<exists>n. map_of a ''label'' = Some PyNone \<and> map_of a ''name'' = Some (PyStr n)
               \<and> self = \<lparr>cls_of = c, attrs = AList.update ''label'' (PyStr (derive_label n)) a\<rparr>)"
      by blast
    from init_fields_lookup [OF a label_field] that have "map_of a ''label'' = Some v" by auto
    with s that show ?thesis by (auto simp: getattr_def)
  qed
  have 3: "\<exists>l. getattr self ''label'' = Inr (PyStr l) \<and> (l = [] \<longleftrightarrow> n = [])"
    if "map_of kw ''name'' = Some (PyStr n)"
      and "map_of kw ''label'' = None \<or> map_of kw ''label'' = Some PyNone" for n
    using construct_derived_label [OF assms that] derive_label_empty [of n] by simp
  have 4: "getattr (setattr self ''name'' x) ''label'' = getattr self ''label''"
    by (simp add: getattr_def setattr_def AList.update_conv' split: option.split)
  from 1 2 3 4 show ?thesis by blast
qed

text \<open>
  The amended claim C6 at a tags field named \<open>first_name\<close>: the label is
  \<open>First name\<close>, also after the name has been changed.
\<close>

theorem label_set_and_kept_witness:
  "(\<exists>self. construct TagsField [(''name'', PyStr ''first_name'')] = Inr self
      \<and> isascii ''first_name''
      \<and> getattr self ''label'' = Inr (PyStr ''First name'')
      \<and> getattr (setattr self ''name'' (PyStr ''surname'')) ''label'' = Inr (PyStr ''First name''))"
proof -
  have "\<exists>self. construct TagsField [(''name'', PyStr ''first_name'')] = Inr self"
    by (simp add: model_defs)
  then obtain self where s: "construct TagsField [(''name'', PyStr ''first_name'')] = Inr self" ..
  have a: "isascii ''first_name''"
    by code_simp
  have l: "attr_of (construct TagsField [(''name'', PyStr ''first_name'')]) ''label''
      = Inr (PyStr ''First name'')"
    by code_simp
  from label_set_and_kept [OF s, of "PyStr ''surname''"]
  have "getattr (setattr self ''name'' (PyStr ''surname'')) ''label'' = getattr self ''label''"
    by blast
  with s l a show ?thesis by (simp add: attr_of_def)
qed

section \<open>Serialization\<close>

text \<open>
  Claim C7 says that the mapping of a field has every declared attribute of its class,
  \<open>input_type\<close> for one. \<open>asdict\<close> lists the dataclass fields, which are the annotated
  attributes; \<open>input_type\<close>, \<open>class_\<close> and \<open>error_class\<close> are assigned without
  annotation and are no keys of the mapping, though the instance reads them.
\<close>

theorem dict_keys_counterexample:
  "map_sum id (map fst) (and_then (construct StringField [(''name'', PyStr ''x'')]) dict)
     = Inr [''name'', ''label'', ''type'', ''search_builder_type'', ''required'', ''is_array'',
            ''exclude_from_list'', ''exclude_from_detail'', ''exclude_from_create'',
            ''exclude_from_edit'', ''searchable'', ''orderable'', ''render_js'',
            ''form_template'', ''form_js'', ''display_template'', ''display_js'', ''help_text'']
   \<and> attr_of (construct StringField [(''name'', PyStr ''x'')]) ''input_type'' = Inr (PyStr ''text'')"
  by code_simp

text \<open>
  Claim C7, amended. The mapping of a constructed field has as its keys exactly the
  annotated attributes of the class and of its bases (inherited and defaulted ones too, the
  class attributes without annotation not), and two instances of one class have the same
  keys in the same order.
\<close>

theorem dict_keys:
  assumes "construct c kw = Inr self" and "construct c kw' = Inr self'"
  shows "\<exists>d d'. dict self = Inr d \<and> dict self' = Inr d' \<and> map fst d = map fst d'
    \<and> (\<forall>n. n \<in> set (map fst d) \<longleftrightarrow> (\<exists>b \<in> set (mro c). \<exists>df. Ann n df \<in> set (class_body b)))"
proof -
  have k: "map fst (attrs self) = map fst (dataclass_fields c)"
    by (rule construct_keys [OF assms(1)])
  have k': "map fst (attrs self') = map fst (dataclass_fields c)"
    by (rule construct_keys [OF assms(2)])
  have "\<forall>n. n \<in> set (map fst (attrs self))
      \<longleftrightarrow> (\<exists>b \<in> set (mro c). \<exists>df. Ann n df \<in> set (class_body b))"
    unfolding k by (rule allI) (rule dataclass_fields_names)
  moreover have "map fst (attrs self) = map fst (attrs self')"
    unfolding k k' ..
  ultimately show ?thesis
    using construct_dict [OF assms(1)] construct_dict [OF assms(2)] by blast
qed

text \<open>
  The amended claim C7 at two \<open>HasMany\<close> fields built from different arguments: the
  same keys, with the own field \<open>many\<close>, the inherited \<open>identity\<close> and \<open>label\<close>.
\<close>

theorem dict_keys_witness:
  "(\<exists>self self'. construct HasMany [(''name'', PyStr ''tags'')] = Inr self
      \<and> construct HasMany [(''name'', PyStr ''owners''), (''identity'', PyStr ''User'')] = Inr self'
      \<and> (\<exists>d d'. dict self = Inr d \<and> dict self' = Inr d' \<and> map fst d = map fst d'
            \<and> ''many'' \<in> set (map fst d) \<and> ''identity'' \<in> set (map fst d)
            \<and> ''label'' \<in> set (map fst d)))"
proof -
  have "\<exists>self. construct HasMany [(''name'', PyStr ''tags'')] = Inr self"
    by (simp add: model_defs)
  then obtain self where s: "construct HasMany [(''name'', PyStr ''tags'')] = Inr self" ..
  have "\<exists>self'. construct HasMany [(''name'', PyStr ''owners''), (''identity'', PyStr ''User'')]
      = Inr self'"
    by (simp add: model_defs)
  then obtain self' where
    s': "construct HasMany [(''name'', PyStr ''owners''), (''identity'', PyStr ''User'')] = Inr self'" ..
  from dict_keys [OF s s'] obtain d d' where d: "dict self = Inr d" "dict self' = Inr d'"
    "map fst d = map fst d'"
    and k: "\<And>n. n \<in> set (map fst d)
       \<longleftrightarrow> (\<exists>b \<in> set (mro HasMany). \<exists>df. Ann n df \<in> set (class_body b))"
    by blast
  have "''many'' \<in> set (map fst d)" "''identity'' \<in> set (map fst d)"
    "''label'' \<in> set (map fst d)"
    unfolding k by simp_all
  with s s' d show ?thesis by blast
qed

text \<open>
  Claim C8. For every class and every call that succeeds, the mapping of the field, passed
  back to the class as keyword arguments, constructs the same field: the same class and the
  same value for every attribute.
\<close>

theorem dict_roundtrip:
  assumes "construct c kw = Inr self"
  shows "\<exists>d. dict self = Inr d \<and> construct c d = Inr self"
proof -
  let ?a = "attrs self"
  have self: "self = \<lparr>cls_of = c, attrs = ?a\<rparr>"
    using construct_cls [OF assms] by (cases self) simp
  have keys: "map fst ?a = map fst (dataclass_fields c)"
    by (rule construct_keys [OF assms])
  have dist: "distinct (map fst ?a)"
    by (rule construct_distinct [OF assms])
  have "init_fields ?a (dataclass_fields c) = Inr ?a"
    by (rule init_fields_attrs [OF dist _ keys]) simp
  with dist keys have "init c ?a = Inr \<lparr>cls_of = c, attrs = ?a\<rparr>"
    by (simp add: init_def list_all_iff)
  with self have i: "init c ?a = Inr self" by simp
  from construct_label [OF assms] obtain v where "map_of ?a ''label'' = Some v" "v \<noteq> PyNone"
    by blast
  then have "post_init self = Inr self"
    by (cases v) (simp_all add: post_init_def getattr_def)
  with i have "construct c ?a = Inr self"
    by (simp add: construct_def)
  with construct_dict [OF assms] show ?thesis by simp
qed

text \<open>
  Claim C8 at a required date field: the mapping carries the override and the defaults, and
  constructs the field again.
\<close>

theorem dict_roundtrip_witness:
  "(\<exists>self d. construct DateField [(''name'', PyStr ''born''), (''required'', PyBool True)] = Inr self
      \<and> dict self = Inr d \<and> construct DateField d = Inr self
      \<and> map_of d ''required'' = Some (PyBool True)
      \<and> map_of d ''output_format'' = Some (PyStr ''%B %d, %Y''))"
proof -
  have "\<exists>self. construct DateField [(''name'', PyStr ''born''), (''required'', PyBool True)] = Inr self"
    by (simp add: model_defs)
  then obtain self where
    s: "construct DateField [(''name'', PyStr ''born''), (''required'', PyBool True)] = Inr self" ..
  from dict_roundtrip [OF s] obtain d where d: "dict self = Inr d" "construct DateField d = Inr self"
    by blast
  have "and_then (construct DateField [(''name'', PyStr ''born''), (''required'', PyBool True)])
      (\<lambda>x. map_sum id (\<lambda>d. (map_of d ''required'', map_of d ''output_format'')) (dict x))
    = Inr (Some (PyBool True), Some (PyStr ''%B %d, %Y''))"
    by code_simp
  with s d have "map_of d ''required'' = Some (PyBool True)"
    "map_of d ''output_format'' = Some (PyStr ''%B %d, %Y'')"
    by (simp_all add: and_then_def)
  with s d show ?thesis by blast
qed

section \<open>Defaults of the relation fields\<close>

text \<open>
  Claim C9. A \<open>HasMany\<close> field constructed with only \<open>name\<close> and \<open>identity\<close> has
  \<open>many == True\<close> and \<open>is_array == True\<close>; a \<open>HasOne\<close> field constructed with only
  \<open>name\<close> and \<open>identity\<close> has \<open>is_array == False\<close>.
\<close>

theorem HasMany_HasOne_defaults:
  "attr_of (construct HasMany [(''name'', PyStr n), (''identity'', PyStr i)]) ''many''
     = Inr (PyBool True)
   \<and> attr_of (construct HasMany [(''name'', PyStr n), (''identity'', PyStr i)]) ''is_array''
     = Inr (PyBool True)
   \<and> attr_of (construct HasOne [(''name'', PyStr n), (''identity'', PyStr i)]) ''is_array''
     = Inr (PyBool False)"
  by (simp add: model_defs)

section \<open>The step of a decimal field\<close>

text \<open>
  Claim C2 says that a \<open>DecimalField\<close> constructed without a \<open>step\<close> argument has the step
  \<open>"any"\<close>. The class body assigns \<open>step = "any"\<close> without an annotation, so the field
  \<open>step\<close> inherited from \<open>_NumberField\<close> keeps its default \<open>None\<close>; \<open>__init__\<close> stores
  that default in the instance, where it hides the class attribute. The instance reads
  \<open>None\<close>, while the class attribute is \<open>"any"\<close>.
\<close>

theorem DecimalField_step_unset:
  "attr_of (construct DecimalField [(''name'', PyStr n)]) ''step'' = Inr PyNone
   \<and> class_lookup (mro DecimalField) ''step'' = Some (PyStr ''any'')"
  by (simp add: model_defs)

section \<open>Enum fields from enumeration types\<close>

lemma map_entries_members:
  "map_entries (map (\<lambda>(n, v). (Some (PyStr n), Some v)) ms)
     = Inr (map (\<lambda>(n, v). PyDict [(''name'', PyStr n), (''value'', v)]) ms)"
  by (induction ms) auto

lemma entry_error: "entry x = Inl e \<Longrightarrow> e = AttributeError"
  by (cases x rule: entry.cases) simp_all

lemma map_entries_lacking:
  "fst x = None \<or> snd x = None \<Longrightarrow> map_entries (xs @ x # zs) = Inl AttributeError"
proof (induction xs)
  case Nil
  then show ?case by (cases x rule: entry.cases) simp_all
next
  case (Cons y xs)
  then show ?case by (auto split: sum.splits dest: entry_error)
qed

lemma map_entries_complete:
  "map_entries (map (\<lambda>(n, v). (Some n, Some v)) ys)
     = Inr (map (\<lambda>(n, v). PyDict [(''name'', n), (''value'', v)]) ys)"
  by (induction ys) auto

text \<open>
  Claim C3. For every enumeration type, \<open>from_enum\<close> returns a field whose \<open>values\<close> has
  one entry per member, in the order of the members, each entry the dictionary of the
  member's name under \<open>"name"\<close> and its value under \<open>"value"\<close>, whatever the optional
  arguments are; the enumeration \<open>NEW = "new"\<close>, \<open>DONE = "done"\<close> gives the two entries of
  the spec.
\<close>

theorem from_enum_values:
  "attr_of (from_enum name (EnumType ms) is_array searchable sbt) ''values''
     = Inr (PyList (map (\<lambda>(n, v). PyDict [(''name'', PyStr n), (''value'', v)]) ms))
   \<and> attr_of (from_enum_default ''status''
         (EnumType [(''NEW'', PyStr ''new''), (''DONE'', PyStr ''done'')])) ''values''
     = Inr (PyList [PyDict [(''name'', PyStr ''NEW''), (''value'', PyStr ''new'')],
                    PyDict [(''name'', PyStr ''DONE''), (''value'', PyStr ''done'')]])"
  by (simp add: from_enum_def from_enum_default_def map_entries_members model_defs)

text \<open>
  Claim C4 says that \<open>from_enum\<close> fails with a type error for every type that is no
  enumeration. The function has no check of its argument: it fails only where iterating the
  argument fails. A class that is no enumeration and is iterable through its metaclass is
  accepted; one that yields nothing gives a field with no values.
\<close>

theorem from_enum_iterable_counterexample:
  "from_enum_default ''status'' (IterableType []) \<noteq> Inl TypeError
   \<and> attr_of (from_enum_default ''status'' (IterableType [])) ''values'' = Inr (PyList [])"
  by (simp add: from_enum_def from_enum_default_def model_defs)

text \<open>
  Claim C4, amended. \<open>from_enum\<close> has no check of its argument. For a type that is no
  enumeration: when the type is not iterable, as every class whose metaclass is \<open>type\<close>
  is, \<open>from_enum\<close> raises \<open>TypeError\<close>; when it is iterable and every object it yields
  has a \<open>name\<close> and a \<open>value\<close>, \<open>from_enum\<close> returns a field whose values are the
  dictionaries of these names and values, in order (no values when nothing is yielded); when
  some object it yields lacks \<open>name\<close> or \<open>value\<close>, \<open>from_enum\<close> raises
  \<open>AttributeError\<close>. This holds whatever the other arguments are.
\<close>

theorem from_enum_non_enum:
  "from_enum name PlainType is_array searchable sbt = Inl TypeError
   \<and> attr_of (from_enum name (IterableType (map (\<lambda>(n, v). (Some n, Some v)) ys))
         is_array searchable sbt) ''values''
       = Inr (PyList (map (\<lambda>(n, v). PyDict [(''name'', n), (''value'', v)]) ys))
   \<and> from_enum name (IterableType (xs @ (None, w) # zs)) is_array searchable sbt
       = Inl AttributeError
   \<and> from_enum name (IterableType (xs @ (u, None) # zs)) is_array searchable sbt
       = Inl AttributeError"
  by (simp add: from_enum_def map_entries_complete map_entries_lacking model_defs)

section \<open>The input attribute string of number fields\<close>

text \<open>
  Claim C5. The integer field \<open>IntegerField(name="age", min=0, max=120)\<close> has the input
  attribute string \<open>type="number" min="0" max="120"\<close>: it contains the pairs for
  \<open>type\<close>, \<open>min\<close> and \<open>max\<close>, and \<open>step\<close> does not occur in it. For every number
  field (\<open>_NumberField\<close>, \<open>IntegerField\<close>, \<open>DecimalField\<close>) the attributes
  \<open>min\<close>, \<open>max\<close> and \<open>step\<close> are the arguments of the call, \<open>None\<close> when not given,
  and the string is the pairs for \<open>type\<close>, \<open>min\<close>, \<open>max\<close>, \<open>step\<close> in this order
  joined by a space, with no pair for an attribute that is \<open>None\<close> or empty.
\<close>

theorem number_input_attributes:
  "and_then (construct IntegerField [(''name'', PyStr ''age''), (''min'', PyInt 0), (''max'', PyInt 120)])
      input_params = Inr ''type=\"number\" min=\"0\" max=\"120\"''
   \<and> contains ''type=\"number\" min=\"0\" max=\"120\"'' ''type=\"number\"''
   \<and> contains ''type=\"number\" min=\"0\" max=\"120\"'' ''min=\"0\"''
   \<and> contains ''type=\"number\" min=\"0\" max=\"120\"'' ''max=\"120\"''
   \<and> \<not> contains ''type=\"number\" min=\"0\" max=\"120\"'' ''step''
   \<and> (\<forall>c kw self.
         (c = NumberField \<or> c = IntegerField \<or> c = DecimalField) \<and> construct c kw = Inr self
         \<longrightarrow> getattr self ''min'' = Inr (arg_or_none kw ''min'')
           \<and> getattr self ''max'' = Inr (arg_or_none kw ''max'')
           \<and> getattr self ''step'' = Inr (arg_or_none kw ''step'')
           \<and> input_params self
               = Inr (join '' '' (pair ''type'' (PyStr ''number'')
                        # emit ''min'' (arg_or_none kw ''min'')
                        @ emit ''max'' (arg_or_none kw ''max'')
                        @ emit ''step'' (arg_or_none kw ''step''))))"
proof -
  have "and_then (construct IntegerField [(''name'', PyStr ''age''), (''min'', PyInt 0), (''max'', PyInt 120)])
      input_params = Inr ''type=\"number\" min=\"0\" max=\"120\"''"
    by code_simp
  moreover have "contains ''type=\"number\" min=\"0\" max=\"120\"'' ''type=\"number\"''"
    by code_simp
  moreover have "contains ''type=\"number\" min=\"0\" max=\"120\"'' ''min=\"0\"''"
    by code_simp
  moreover have "contains ''type=\"number\" min=\"0\" max=\"120\"'' ''max=\"120\"''"
    by code_simp
  moreover have "\<not> contains ''type=\"number\" min=\"0\" max=\"120\"'' ''step''"
    by code_simp
  ultimately show ?thesis
    using number_input_params by blast
qed

text \<open>
  Claim C5 at a decimal field with \<open>min\<close> and \<open>step\<close> given and no \<open>max\<close>: the
  string has the pairs for \<open>type\<close>, \<open>min\<close> and \<open>step\<close>.
\<close>

theorem number_input_attributes_witness:
  "(\<exists>self. construct DecimalField
        [(''name'', PyStr ''price''), (''min'', PyInt 0), (''step'', PyStr ''0.01'')] = Inr self
      \<and> getattr self ''max'' = Inr PyNone
      \<and> input_params self = Inr ''type=\"number\" min=\"0\" step=\"0.01\"'')"
proof -
  let ?kw = "[(''name'', PyStr ''price''), (''min'', PyInt 0), (''step'', PyStr ''0.01'')]"
  have "\<exists>self. construct DecimalField ?kw = Inr self"
    by (simp add: model_defs)
  then obtain self where s: "construct DecimalField ?kw = Inr self" ..
  with number_input_attributes
  have "getattr self ''max'' = Inr (arg_or_none ?kw ''max'')"
    and "input_params self
      = Inr (join '' '' (pair ''type'' (PyStr ''number'')
               # emit ''min'' (arg_or_none ?kw ''min'')
               @ emit ''max'' (arg_or_none ?kw ''max'')
               @ emit ''step'' (arg_or_none ?kw ''step'')))"
    by blast+
  moreover have "arg_or_none ?kw ''max'' = PyNone"
    by code_simp
  moreover have "join '' '' (pair ''type'' (PyStr ''number'')
               # emit ''min'' (arg_or_none ?kw ''min'')
               @ emit ''max'' (arg_or_none ?kw ''max'')
               @ emit ''step'' (arg_or_none ?kw ''step''))
      = ''type=\"number\" min=\"0\" step=\"0.01\"''"
    by code_simp
  ultimately show ?thesis using s by auto
qed

section \<open>Phone fields\<close>




end
